theory Spec2Isabelle
  imports Complex_Main
begin

section \<open>Data model of the nav-pick tutorial (Habitat2\_Quickstart.py)\<close>

text \<open>
  Exceptions are values. The Python built-ins keep their names; \<open>DependencyError\<close>,
  \<open>StateMachineError\<close> and \<open>SimulatorStateError\<close> are the failures of the
  framework classes that the tutorial calls into.
\<close>

datatype exn =
    TypeError
  | KeyError
  | IndexError
  | AttributeError
  | ValueError
  | DependencyError
  | StateMachineError
  | SimulatorStateError

text \<open>
  The values a measure stores in \<open>self._metric\<close>: \<open>None\<close> before the first computation,
  a float (idealised as a real number), a bool, or an int (the negation of a bool).
\<close>

datatype pyval = PyNone | PyBool bool | PyInt int | PyFloat real

type_synonym vec3 = "real \<times> real \<times> real"

text \<open>
  The measure classes of the tutorial; \<open>FrameworkMeasure ty\<close> is a measure class of the
  framework named by its TYPE string in the configuration (RobotForce, ...).
\<close>

datatype measure_cls =
    DistanceToTargetObject
  | NavPickReward
  | NavPickSuccess
  | FrameworkMeasure string

definition DistanceToTargetObject_cls_uuid :: string where
  "DistanceToTargetObject_cls_uuid = ''distance_to_object''"

definition NavPickReward_cls_uuid :: string where
  "NavPickReward_cls_uuid = ''navpick_reward''"

definition NavPickSuccess_cls_uuid :: string where
  "NavPickSuccess_cls_uuid = ''navpick_success''"

text \<open>
  \<open>_get_uuid\<close> of each class. The uuid of a framework class is not part of the tutorial
  and is taken as the parameter \<open>fw\<close>.
\<close>

fun get_uuid :: "(string \<Rightarrow> string) \<Rightarrow> measure_cls \<Rightarrow> string" where
  "get_uuid fw DistanceToTargetObject = DistanceToTargetObject_cls_uuid"
| "get_uuid fw NavPickReward = NavPickReward_cls_uuid"
| "get_uuid fw NavPickSuccess = NavPickSuccess_cls_uuid"
| "get_uuid fw (FrameworkMeasure ty) = fw ty"

text \<open>
  A measure object: its class, the numeric keys of \<open>self._config\<close> (SCALING\_FACTOR,
  FORCE\_PEN, ...), \<open>self._metric\<close>, and \<open>self._prev_ee_pos\<close> (declared by NavPickSuccess
  only, which sets it to \<open>None\<close> in \<open>__init__\<close>).
\<close>

record measure =
  cls :: measure_cls
  config :: "string \<rightharpoonup> real"
  metric :: pyval
  prev_ee_pos :: "vec3 option"

definition get_metric :: "measure \<Rightarrow> pyval" where
  "get_metric m = metric m"

text \<open>
  The task: \<open>target_object_index\<close> is an attribute that exists only once \<open>reset\<close> has
  assigned it (\<open>None\<close> here means the attribute is not set), and
  \<open>task.measurements.measures\<close> maps a uuid to the measure object.
\<close>

record task =
  target_object_index :: "int option"
  measurements :: "string \<rightharpoonup> measure"

text \<open>
  What the measures, the sensor and the task read from and write to the simulator:
  \<open>robot.ee_transform.translation\<close>, the first component of \<open>get_targets()\<close>,
  \<open>get_scene_pos()\<close>, \<open>scene_obj_ids\<close>, \<open>grasp_mgr.snap_idx\<close> (\<open>None\<close> when nothing is
  held), \<open>get_n_targets()\<close> and \<open>robot.base_pos\<close>.
\<close>

record sim =
  ee_translation :: vec3
  targets_idxs :: "int list"
  scene_pos :: "vec3 list"
  scene_obj_ids :: "int list"
  snap_idx :: "int option"
  n_targets :: int
  base_pos :: vec3

text \<open>Keyword arguments of a method call, by name.\<close>

datatype arg = ArgTask task | ArgEpisode nat | ArgObservations nat | ArgOther nat

type_synonym kwargs = "string \<rightharpoonup> arg"

section \<open>Python primitives\<close>

text \<open>Indexing a list or array with an int: negative indices count from the end.\<close>

definition py_index :: "'a list \<Rightarrow> int \<Rightarrow> exn + 'a" where
  "py_index xs i =
     (let n = int (length xs) in
      if 0 \<le> i \<and> i < n then Inr (xs ! nat i)
      else if - n \<le> i \<and> i < 0 then Inr (xs ! nat (n + i))
      else Inl IndexError)"

text \<open>Unary minus: \<open>-None\<close> raises, \<open>-True\<close> is the int \<open>-1\<close>.\<close>

fun py_neg :: "pyval \<Rightarrow> exn + pyval" where
  "py_neg PyNone = Inl TypeError"
| "py_neg (PyBool b) = Inr (PyInt (- (if b then 1 else 0)))"
| "py_neg (PyInt i) = Inr (PyInt (- i))"
| "py_neg (PyFloat x) = Inr (PyFloat (- x))"

text \<open>
  A method whose signature names keyword-only parameters after \<open>*args\<close> raises TypeError
  when one of them is not passed by keyword; positional arguments cannot fill them.
  \<open>**kwargs\<close> receives the keywords that are not named parameters.
\<close>

definition missing_kw :: "string list \<Rightarrow> kwargs \<Rightarrow> bool" where
  "missing_kw names kw = list_ex (\<lambda>n. kw n = None) names"

definition rest_kwargs :: "string list \<Rightarrow> kwargs \<Rightarrow> kwargs" where
  "rest_kwargs names kw = kw |` (- set names)"

text \<open>Passing \<open>name=value\<close> explicitly next to \<open>**kwargs\<close>.\<close>

definition pass_kw :: "string \<Rightarrow> kwargs \<Rightarrow> kwargs \<Rightarrow> kwargs" where
  "pass_kw name kw rest = (case kw name of None \<Rightarrow> rest | Some v \<Rightarrow> rest(name \<mapsto> v))"

text \<open>\<open>task.target_object_index\<close> and \<open>task.measurements.measures[uuid]\<close>.\<close>

fun task_target_object_index :: "arg option \<Rightarrow> exn + int" where
  "task_target_object_index (Some (ArgTask t)) =
     (case target_object_index t of None \<Rightarrow> Inl AttributeError | Some i \<Rightarrow> Inr i)"
| "task_target_object_index _ = Inl AttributeError"

fun task_measure :: "arg option \<Rightarrow> string \<Rightarrow> exn + measure" where
  "task_measure (Some (ArgTask t)) uuid =
     (case measurements t uuid of None \<Rightarrow> Inl KeyError | Some m \<Rightarrow> Inr m)"
| "task_measure _ uuid = Inl AttributeError"

text \<open>\<open>scene_pos - ee_pos\<close> and \<open>np.linalg.norm(v, ord=2, axis=-1)\<close> of a 3-vector.\<close>

fun vsub :: "vec3 \<Rightarrow> vec3 \<Rightarrow> vec3" where
  "vsub (a, b, c) (x, y, z) = (a - x, b - y, c - z)"

fun linalg_norm :: "vec3 \<Rightarrow> real" where
  "linalg_norm (x, y, z) = sqrt (x\<^sup>2 + y\<^sup>2 + z\<^sup>2)"

section \<open>The measures\<close>

subsection \<open>DistanceToTargetObject\<close>

definition DistanceToTargetObject_update_metric ::
  "sim \<Rightarrow> measure \<Rightarrow> arg list \<Rightarrow> kwargs \<Rightarrow> exn + measure" where
  "DistanceToTargetObject_update_metric s self args kw =
     (if missing_kw [''task'', ''episode''] kw then Inl TypeError
      else
        let ee_pos = ee_translation s; idxs = targets_idxs s in
        case task_target_object_index (kw ''task'') of
          Inl e \<Rightarrow> Inl e
        | Inr ti \<Rightarrow>
           (case py_index idxs ti of
              Inl e \<Rightarrow> Inl e
            | Inr i \<Rightarrow>
               (case py_index (scene_pos s) i of
                  Inl e \<Rightarrow> Inl e
                | Inr p \<Rightarrow> Inr (self\<lparr>metric := PyFloat (linalg_norm (vsub p ee_pos))\<rparr>))))"

definition DistanceToTargetObject_reset_metric ::
  "sim \<Rightarrow> measure \<Rightarrow> arg list \<Rightarrow> kwargs \<Rightarrow> exn + measure" where
  "DistanceToTargetObject_reset_metric s self args kw =
     (if missing_kw [''episode''] kw then Inl TypeError
      else DistanceToTargetObject_update_metric s self args
             (pass_kw ''episode'' kw (rest_kwargs [''episode''] kw)))"

subsection \<open>NavPickReward\<close>

text \<open>
  Modelled from the spec: \<open>check_measure_dependencies\<close> of the framework's measurement
  set is not part of the tutorial. It fails with DependencyError when one of the required
  ids is not present in the measurement set, and does nothing otherwise.
\<close>

fun check_measure_dependencies :: "arg option \<Rightarrow> string \<Rightarrow> string list \<Rightarrow> exn + unit" where
  "check_measure_dependencies (Some (ArgTask t)) measure_id required_ids =
     (if list_all (\<lambda>r. measurements t r \<noteq> None) required_ids then Inr ()
      else Inl DependencyError)"
| "check_measure_dependencies _ measure_id required_ids = Inl AttributeError"

definition NavPickReward_update_metric ::
  "sim \<Rightarrow> measure \<Rightarrow> arg list \<Rightarrow> kwargs \<Rightarrow> exn + measure" where
  "NavPickReward_update_metric s self args kw =
     (if missing_kw [''task'', ''episode''] kw then Inl TypeError
      else
        case task_measure (kw ''task'') DistanceToTargetObject_cls_uuid of
          Inl e \<Rightarrow> Inl e
        | Inr d \<Rightarrow>
           (let ee_to_object_distance = get_metric d in
            case py_neg ee_to_object_distance of
              Inl e \<Rightarrow> Inl e
            | Inr v \<Rightarrow> Inr (self\<lparr>metric := v\<rparr>)))"

definition NavPickReward_reset_metric ::
  "sim \<Rightarrow> measure \<Rightarrow> arg list \<Rightarrow> kwargs \<Rightarrow> exn + measure" where
  "NavPickReward_reset_metric s self args kw =
     (if missing_kw [''task'', ''episode''] kw then Inl TypeError
      else
        case check_measure_dependencies (kw ''task'') NavPickReward_cls_uuid
               [DistanceToTargetObject_cls_uuid] of
          Inl e \<Rightarrow> Inl e
        | Inr _ \<Rightarrow>
            NavPickReward_update_metric s self args
              (pass_kw ''episode'' kw (rest_kwargs [''task'', ''episode''] kw)))"

subsection \<open>NavPickSuccess\<close>

definition NavPickSuccess_update_metric ::
  "sim \<Rightarrow> measure \<Rightarrow> arg list \<Rightarrow> kwargs \<Rightarrow> exn + measure" where
  "NavPickSuccess_update_metric s self args kw =
     (if missing_kw [''episode'', ''task'', ''observations''] kw then Inl TypeError
      else
        case task_target_object_index (kw ''task'') of
          Inl e \<Rightarrow> Inl e
        | Inr ti \<Rightarrow>
           (case py_index (scene_obj_ids s) ti of
              Inl e \<Rightarrow> Inl e
            | Inr abs_targ_obj_idx \<Rightarrow>
                Inr (self\<lparr>metric := PyBool (Some abs_targ_obj_idx = snap_idx s)\<rparr>)))"

definition NavPickSuccess_reset_metric ::
  "sim \<Rightarrow> measure \<Rightarrow> arg list \<Rightarrow> kwargs \<Rightarrow> exn + measure" where
  "NavPickSuccess_reset_metric s self args kw =
     (if missing_kw [''episode'', ''task'', ''observations''] kw then Inl TypeError
      else NavPickSuccess_update_metric s self args
             (pass_kw ''episode'' kw (pass_kw ''task'' kw (pass_kw ''observations'' kw
                (rest_kwargs [''episode'', ''task'', ''observations''] kw)))))"

subsection \<open>Construction of a measure\<close>

text \<open>
  Modelled from the spec: the constructor of the framework's base class \<open>Measure\<close> is not
  part of the tutorial. A measure holds its last computed metric, so a fresh one holds
  none; NavPickSuccess sets \<open>_prev_ee_pos\<close> to \<open>None\<close> itself.
\<close>

definition Measure_init :: "measure_cls \<Rightarrow> (string \<rightharpoonup> real) \<Rightarrow> measure" where
  "Measure_init c cfg = \<lparr>cls = c, config = cfg, metric = PyNone, prev_ee_pos = None\<rparr>"

text \<open>
  The states a DistanceToTargetObject object can be in: constructed, then any number of
  \<open>reset_metric\<close> and \<open>update_metric\<close> calls that returned, on any simulator state and
  with any arguments.
\<close>

inductive DistanceToTargetObject_state :: "measure \<Rightarrow> bool" where
  constructed: "DistanceToTargetObject_state (Measure_init DistanceToTargetObject cfg)"
| updated:
    "DistanceToTargetObject_state d \<Longrightarrow>
     DistanceToTargetObject_update_metric s d args kw = Inr d' \<Longrightarrow>
     DistanceToTargetObject_state d'"
| was_reset:
    "DistanceToTargetObject_state d \<Longrightarrow>
     DistanceToTargetObject_reset_metric s d args kw = Inr d' \<Longrightarrow>
     DistanceToTargetObject_state d'"

section \<open>The task\<close>

text \<open>
  \<open>np.random.randint(low, high)\<close> of the numpy library: an int of the half-open range
  from \<open>low\<close> to \<open>high\<close>, ValueError when the range is empty. The draw \<open>r\<close> of the
  generator is a parameter; every value of the range is the result of some draw.
\<close>

definition randint :: "int \<Rightarrow> int \<Rightarrow> nat \<Rightarrow> exn + int" where
  "randint low high r =
     (if low < high then Inr (low + int r mod (high - low)) else Inl ValueError)"

text \<open>
  \<open>NavPickTaskV1.reset\<close>. The base class \<open>RearrangeTask\<close> is not part of the tutorial:
  its \<open>reset\<close> is the parameter \<open>super_reset\<close>, which works on the task and the simulator
  and returns the observations. \<open>r\<close> is the generator's draw and \<open>nav_point\<close> the result
  of \<open>pathfinder.get_random_navigable_point()\<close>.
\<close>

definition NavPickTaskV1_reset ::
  "(task \<times> sim \<Rightarrow> nat \<Rightarrow> exn + (task \<times> sim) \<times> 'o) \<Rightarrow> nat \<Rightarrow> vec3 \<Rightarrow>
   task \<times> sim \<Rightarrow> nat \<Rightarrow> exn + (task \<times> sim) \<times> 'o" where
  "NavPickTaskV1_reset super_reset r nav_point w episode =
     (case randint 0 (n_targets (snd w)) r of
        Inl e \<Rightarrow> Inl e
      | Inr i \<Rightarrow>
         (let t1 = (fst w)\<lparr>target_object_index := Some i\<rparr>;
              start_pos = nav_point;
              s1 = (snd w)\<lparr>base_pos := start_pos\<rparr>
          in super_reset (t1, s1) episode))"

section \<open>The environment and the episode loop\<close>

text \<open>
  Modelled from the spec: the class \<open>habitat.Env\<close> is not part of the tutorial. It is a
  state machine over NOT\_STARTED, RUNNING and DONE around a simulator state \<open>'s\<close>;
  \<open>released\<close> records that its teardown has run.
\<close>

datatype runner_state = NOT_STARTED | RUNNING | DONE

record 's env =
  status :: runner_state
  simulator :: 's
  released :: bool

text \<open>Modelled from the spec: a constructed environment has not started and is held.\<close>

definition Env_init :: "'s \<Rightarrow> 's env" where
  "Env_init s0 = \<lparr>status = NOT_STARTED, simulator = s0, released = False\<rparr>"

text \<open>
  Modelled from the spec: \<open>reset\<close> takes NOT\_STARTED and DONE to RUNNING (a reset while
  RUNNING is not described; it stays RUNNING here).
\<close>

definition Env_reset :: "'s env \<Rightarrow> 's env" where
  "Env_reset e = e\<lparr>status := RUNNING\<rparr>"

definition episode_over :: "'s env \<Rightarrow> bool" where
  "episode_over e = (status e = DONE)"

text \<open>
  Modelled from the spec: \<open>step\<close> is rejected with a state-machine error unless the
  environment is RUNNING; otherwise it advances the simulator (\<open>advance\<close>, which may
  fail, and then the error is propagated) and moves to DONE when the termination
  predicate \<open>terminated\<close> holds of the new state.
\<close>

definition Env_step ::
  "('s \<Rightarrow> 'a \<Rightarrow> exn + 's) \<Rightarrow> ('s \<Rightarrow> bool) \<Rightarrow> 's env \<Rightarrow> 'a \<Rightarrow> exn + 's env" where
  "Env_step advance terminated e a =
     (if status e \<noteq> RUNNING then Inl StateMachineError
      else
        case advance (simulator e) a of
          Inl x \<Rightarrow> Inl x
        | Inr s' \<Rightarrow>
            Inr (e\<lparr>simulator := s', status := (if terminated s' then DONE else RUNNING)\<rparr>))"

text \<open>Modelled from the spec: leaving the environment runs its teardown.\<close>

definition Env_close :: "'s env \<Rightarrow> 's env" where
  "Env_close e = e\<lparr>released := True\<rparr>"

text \<open>
  The loop of both demos: \<open>while not env.episode_over\<close>, sample an action, step, count.
  \<open>sample k\<close> is the action drawn in iteration \<open>k\<close>. The loop may run forever, and then
  the result is \<open>None\<close>; otherwise it is the environment together with \<open>count_steps\<close>,
  or with the exception that left the loop. Rendering and the video writer are outside
  the model.
\<close>

partial_function (option) step_loop ::
  "('s env \<Rightarrow> 'a \<Rightarrow> exn + 's env) \<Rightarrow> (nat \<Rightarrow> 'a) \<Rightarrow> 's env \<Rightarrow> nat \<Rightarrow>
   ((exn + nat) \<times> 's env) option" where
  "step_loop step sample e count_steps =
     (if episode_over e then Some (Inr count_steps, e)
      else
        case step e (sample count_steps) of
          Inl x \<Rightarrow> Some (Inl x, e)
        | Inr e' \<Rightarrow> step_loop step sample e' (count_steps + 1))"

text \<open>The body of the \<open>with\<close> block: \<open>env.reset()\<close>, \<open>count_steps = 0\<close>, the loop.\<close>

definition episode_body ::
  "('s env \<Rightarrow> 'a \<Rightarrow> exn + 's env) \<Rightarrow> (nat \<Rightarrow> 'a) \<Rightarrow> 's env \<Rightarrow>
   ((exn + nat) \<times> 's env) option" where
  "episode_body step sample e = step_loop step sample (Env_reset e) 0"

text \<open>
  \<open>with habitat.Env(...) as env: body\<close>: when the body is left, by its end or by an
  exception, the environment's exit handler runs and the exception, if any, goes on.
\<close>

definition with_Env ::
  "'s env \<Rightarrow> ('s env \<Rightarrow> ((exn + 'r) \<times> 's env) option) \<Rightarrow> ((exn + 'r) \<times> 's env) option" where
  "with_Env e body =
     (case body e of None \<Rightarrow> None | Some (out, e') \<Rightarrow> Some (out, Env_close e'))"

definition nav_pick_demo ::
  "('s \<Rightarrow> 'a \<Rightarrow> exn + 's) \<Rightarrow> ('s \<Rightarrow> bool) \<Rightarrow> (nat \<Rightarrow> 'a) \<Rightarrow> 's \<Rightarrow>
   ((exn + nat) \<times> 's env) option" where
  "nav_pick_demo advance terminated sample s0 =
     with_Env (Env_init s0) (episode_body (Env_step advance terminated) sample)"

text \<open>The simulator states after \<open>k\<close> steps from \<open>s\<close>, while no step fails.\<close>

fun sim_after :: "('s \<Rightarrow> 'a \<Rightarrow> exn + 's) \<Rightarrow> (nat \<Rightarrow> 'a) \<Rightarrow> 's \<Rightarrow> nat \<Rightarrow> exn + 's" where
  "sim_after advance sample s 0 = Inr s"
| "sim_after advance sample s (Suc k) =
     (case sim_after advance sample s k of
        Inl x \<Rightarrow> Inl x
      | Inr s' \<Rightarrow> advance s' (sample k))"

text \<open>
  An environment whose \<open>episode_over\<close> becomes true after exactly \<open>n\<close> step calls: no
  step up to the \<open>n\<close>-th fails, the termination predicate is false after each of the
  first \<open>n - 1\<close> steps and true after the \<open>n\<close>-th.
\<close>

definition over_after_exactly ::
  "('s \<Rightarrow> 'a \<Rightarrow> exn + 's) \<Rightarrow> ('s \<Rightarrow> bool) \<Rightarrow> (nat \<Rightarrow> 'a) \<Rightarrow> 's \<Rightarrow> nat \<Rightarrow> bool" where
  "over_after_exactly advance terminated sample s0 n \<longleftrightarrow>
     0 < n \<and>
     (\<forall>k \<in> {1..<n}.
        case sim_after advance sample s0 k of Inl x \<Rightarrow> False | Inr s \<Rightarrow> \<not> terminated s) \<and>
     (case sim_after advance sample s0 n of Inl x \<Rightarrow> False | Inr s \<Rightarrow> terminated s)"

section \<open>Scenarios\<close>

text \<open>
  A NavPickReward configured with SCALING\_FACTOR 0.1 and no penalties, next to a
  DistanceToTargetObject whose last metric is \<open>d\<close>, in one measurement set.
\<close>

definition scenario_reward :: measure where
  "scenario_reward =
     \<lparr>cls = NavPickReward,
      config = [''SCALING_FACTOR'' \<mapsto> 1 / 10, ''CONSTRAINT_VIOLATE_PEN'' \<mapsto> 0,
                ''FORCE_PEN'' \<mapsto> 0, ''MAX_FORCE_PEN'' \<mapsto> 0, ''FORCE_END_PEN'' \<mapsto> 0],
      metric = PyNone, prev_ee_pos = None\<rparr>"

definition scenario_distance :: "real \<Rightarrow> measure" where
  "scenario_distance d =
     \<lparr>cls = DistanceToTargetObject, config = Map.empty, metric = PyFloat d,
      prev_ee_pos = None\<rparr>"

definition scenario_task :: "real \<Rightarrow> task" where
  "scenario_task d =
     \<lparr>target_object_index = Some 0,
      measurements = [DistanceToTargetObject_cls_uuid \<mapsto> scenario_distance d,
                      NavPickReward_cls_uuid \<mapsto> scenario_reward]\<rparr>"

text \<open>The keywords the task passes to the measures: episode, task and observations.\<close>

definition scenario_kw :: "task \<Rightarrow> kwargs" where
  "scenario_kw t =
     [''episode'' \<mapsto> ArgEpisode 0, ''task'' \<mapsto> ArgTask t,
      ''observations'' \<mapsto> ArgObservations 0]"

text \<open>
  A simulator state with the end effector at the origin, one target (scene object 1, at
  distance 5) and two scene objects, the first of which is held.
\<close>

definition scenario_sim :: sim where
  "scenario_sim =
     \<lparr>ee_translation = (0, 0, 0), targets_idxs = [1], scene_pos = [(9, 9, 9), (3, 4, 0)],
      scene_obj_ids = [7, 8], snap_idx = Some 7, n_targets = 1, base_pos = (0, 0, 0)\<rparr>"

text \<open>
  The same scene with the end effector at \<open>(1, 2, 3)\<close> and the target at
  \<open>(3, 5, 9)\<close>: the two points differ in every coordinate, by 2, 3 and 6.
\<close>

definition scenario_sim_offset :: sim where
  "scenario_sim_offset =
     \<lparr>ee_translation = (1, 2, 3), targets_idxs = [1], scene_pos = [(9, 9, 9), (3, 5, 9)],
      scene_obj_ids = [7, 8], snap_idx = Some 7, n_targets = 1, base_pos = (0, 0, 0)\<rparr>"

text \<open>A simulator that counts its steps and is over after the fifth.\<close>

definition counting_advance :: "nat \<Rightarrow> unit \<Rightarrow> exn + nat" where
  "counting_advance s a = Inr (Suc s)"

definition over_after_five :: "nat \<Rightarrow> bool" where
  "over_after_five s = (s = 5)"

text \<open>A simulator whose third step fails.\<close>

definition failing_advance :: "nat \<Rightarrow> unit \<Rightarrow> exn + nat" where
  "failing_advance s a = (if s = 2 then Inl SimulatorStateError else Inr (Suc s))"

section \<open>Shared facts\<close>

lemma pass_rest_same:
  "kw n \<noteq> None \<Longrightarrow> pass_kw n kw (rest_kwargs [n] kw) = kw"
  by (auto simp: pass_kw_def rest_kwargs_def restrict_map_def fun_eq_iff)

lemma pass_all_same:
  assumes "kw ''episode'' \<noteq> None" "kw ''task'' \<noteq> None" "kw ''observations'' \<noteq> None"
  shows "pass_kw ''episode'' kw (pass_kw ''task'' kw (pass_kw ''observations'' kw
           (rest_kwargs [''episode'', ''task'', ''observations''] kw))) = kw"
  using assms
  by (auto simp: pass_kw_def rest_kwargs_def restrict_map_def fun_eq_iff)

lemma uuid_neq [simp]:
  "DistanceToTargetObject_cls_uuid \<noteq> NavPickReward_cls_uuid"
  "NavPickReward_cls_uuid \<noteq> DistanceToTargetObject_cls_uuid"
  by (simp_all add: DistanceToTargetObject_cls_uuid_def NavPickReward_cls_uuid_def)

lemma scenario_kw_simps [simp]:
  "scenario_kw t ''task'' = Some (ArgTask t)"
  "scenario_kw t ''episode'' = Some (ArgEpisode 0)"
  "scenario_kw t ''observations'' = Some (ArgObservations 0)"
  by (simp_all add: scenario_kw_def)

lemma linalg_norm_vsub_commute: "linalg_norm (vsub p q) = linalg_norm (vsub q p)"
proof -
  obtain a b c where p: "p = (a, b, c)" by (cases p)
  obtain x y z where q: "q = (x, y, z)" by (cases q)
  show ?thesis by (simp add: p q power2_commute)
qed

lemma linalg_norm_nonneg: "0 \<le> linalg_norm v"
  by (cases v) simp

lemma sqrt_25: "sqrt 25 = 5"
proof -
  have "sqrt 25 = sqrt (5\<^sup>2)" by simp
  then show ?thesis by simp
qed

section \<open>NavPickReward.update\_metric\<close>

text \<open>
  C1, as stated, fails: with the prerequisite distance at 2.5 and SCALING\_FACTOR 0.1 in
  the reward's configuration, \<open>update_metric\<close> stores -2.5, not -0.25. The method
  never reads its configuration.
\<close>

theorem NavPickReward_update_metric_not_scaled:
  "map_sum id get_metric
     (NavPickReward_update_metric scenario_sim scenario_reward []
        (scenario_kw (scenario_task (5 / 2))))
   = Inr (PyFloat (- (5 / 2))) \<and>
   map_sum id get_metric
     (NavPickReward_update_metric scenario_sim scenario_reward []
        (scenario_kw (scenario_task (5 / 2))))
   \<noteq> Inr (PyFloat (- (1 / 4)))"
  by (simp add: NavPickReward_update_metric_def missing_kw_def scenario_task_def
      scenario_distance_def get_metric_def)

text \<open>
  C1, amended: when the task's measurement set holds a DistanceToTargetObject entry whose
  last metric is the float \<open>x\<close>, \<open>NavPickReward.update_metric\<close> stores \<open>- x\<close>, whatever
  the reward's configuration (scaling factor, penalties) is, and changes nothing else of
  the reward.
\<close>

theorem NavPickReward_update_metric_negates_distance:
  assumes "task_measure (kw ''task'') DistanceToTargetObject_cls_uuid = Inr d"
    and "get_metric d = PyFloat x"
    and "kw ''episode'' \<noteq> None"
  shows "NavPickReward_update_metric s self args kw = Inr (self\<lparr>metric := PyFloat (- x)\<rparr>)"
proof -
  from assms(1) have "kw ''task'' \<noteq> None" by (cases "kw ''task''") auto
  with assms show ?thesis
    by (simp add: NavPickReward_update_metric_def missing_kw_def)
qed

theorem NavPickReward_update_metric_negates_distance_witness:
  "NavPickReward_update_metric scenario_sim scenario_reward []
     (scenario_kw (scenario_task (5 / 2)))
     = Inr (scenario_reward\<lparr>metric := PyFloat (- (5 / 2))\<rparr>)"
  using NavPickReward_update_metric_negates_distance
    [of "scenario_kw (scenario_task (5 / 2))" "scenario_distance (5 / 2)" "5 / 2"
      scenario_sim scenario_reward "[]"]
  by (simp add: scenario_task_def scenario_distance_def get_metric_def)

section \<open>NavPickReward.reset\_metric\<close>

text \<open>
  C2: when the measurement set of the task has no DistanceToTargetObject entry,
  \<open>NavPickReward.reset_metric\<close> raises DependencyError. The check comes before the call
  of \<open>update_metric\<close>, whose last statement is the only write to \<open>_metric\<close>, so no
  metric is stored: the call returns the exception and no updated object.
\<close>

theorem NavPickReward_reset_metric_missing_dependency:
  assumes "kw ''task'' = Some (ArgTask t)"
    and "kw ''episode'' \<noteq> None"
    and "measurements t DistanceToTargetObject_cls_uuid = None"
  shows "NavPickReward_reset_metric s self args kw = Inl DependencyError"
  using assms by (simp add: NavPickReward_reset_metric_def missing_kw_def)

theorem NavPickReward_reset_metric_missing_dependency_witness:
  "NavPickReward_reset_metric scenario_sim scenario_reward []
     (scenario_kw ((scenario_task 0)\<lparr>measurements := [NavPickReward_cls_uuid \<mapsto> scenario_reward]\<rparr>))
     = Inl DependencyError"
  using NavPickReward_reset_metric_missing_dependency
    [of "scenario_kw ((scenario_task 0)\<lparr>measurements := [NavPickReward_cls_uuid \<mapsto> scenario_reward]\<rparr>)"
      "(scenario_task 0)\<lparr>measurements := [NavPickReward_cls_uuid \<mapsto> scenario_reward]\<rparr>"
      scenario_sim scenario_reward "[]"]
  by simp

section \<open>reset\_metric against update\_metric\<close>

text \<open>
  DistanceToTargetObject and NavPickSuccess pass every keyword on, so their
  \<open>reset_metric\<close> is their \<open>update_metric\<close> on every input.
\<close>

lemma DistanceToTargetObject_reset_is_update:
  "DistanceToTargetObject_reset_metric s self args kw =
   DistanceToTargetObject_update_metric s self args kw"
proof (cases "kw ''episode'' = None")
  case True
  then show ?thesis
    by (simp add: DistanceToTargetObject_reset_metric_def
        DistanceToTargetObject_update_metric_def missing_kw_def)
next
  case False
  then have "pass_kw ''episode'' kw (rest_kwargs [''episode''] kw) = kw"
    by (rule pass_rest_same)
  with False show ?thesis
    by (auto simp: DistanceToTargetObject_reset_metric_def missing_kw_def)
qed

lemma NavPickSuccess_reset_is_update:
  "NavPickSuccess_reset_metric s self args kw = NavPickSuccess_update_metric s self args kw"
proof (cases "missing_kw [''episode'', ''task'', ''observations''] kw")
  case True
  then show ?thesis
    by (simp add: NavPickSuccess_reset_metric_def NavPickSuccess_update_metric_def)
next
  case False
  then have "pass_kw ''episode'' kw (pass_kw ''task'' kw (pass_kw ''observations'' kw
           (rest_kwargs [''episode'', ''task'', ''observations''] kw))) = kw"
    by (intro pass_all_same) (auto simp: missing_kw_def)
  with False show ?thesis
    by (simp add: NavPickSuccess_reset_metric_def)
qed

text \<open>
  \<open>NavPickReward.reset_metric\<close> binds \<open>task\<close> as a named parameter and calls
  \<open>update_metric\<close> with \<open>episode\<close> and the remaining keywords only, so the call lacks
  the required keyword \<open>task\<close>: the method raises on every input.
\<close>

lemma NavPickReward_reset_metric_raises:
  "\<exists>e. NavPickReward_reset_metric s self args kw = Inl e"
proof (cases "missing_kw [''task'', ''episode''] kw")
  case True
  then show ?thesis by (simp add: NavPickReward_reset_metric_def)
next
  case False
  have "missing_kw [''task'', ''episode'']
          (pass_kw ''episode'' kw (rest_kwargs [''task'', ''episode''] kw))"
    by (simp add: missing_kw_def pass_kw_def rest_kwargs_def split: option.splits)
  then show ?thesis
    by (simp add: NavPickReward_reset_metric_def NavPickReward_update_metric_def
        split: sum.splits)
qed

text \<open>
  C4 does not hold of NavPickReward: in a measurement set whose DistanceToTargetObject
  holds 2.5, called with the keywords episode, task and observations,
  \<open>reset_metric\<close> raises TypeError and stores nothing, while \<open>update_metric\<close> on the
  same state stores -2.5.
\<close>

theorem NavPickReward_reset_metric_drops_task:
  "NavPickReward_reset_metric scenario_sim scenario_reward []
     (scenario_kw (scenario_task (5 / 2))) = Inl TypeError \<and>
   NavPickReward_update_metric scenario_sim scenario_reward []
     (scenario_kw (scenario_task (5 / 2)))
     = Inr (scenario_reward\<lparr>metric := PyFloat (- (5 / 2))\<rparr>)"
  by (simp add: NavPickReward_reset_metric_def NavPickReward_update_metric_def missing_kw_def
      pass_kw_def rest_kwargs_def scenario_task_def scenario_distance_def get_metric_def)

section \<open>NavPickSuccess.update\_metric\<close>

text \<open>
  C5: whenever the target index is a valid index of \<open>scene_obj_ids\<close>, with \<open>a\<close> the
  entry it selects, \<open>NavPickSuccess.update_metric\<close> stores true if \<open>a\<close> is the
  grasp manager's \<open>snap_idx\<close> and false otherwise. The stored value is computed from the
  simulator and the task alone: neither the previous metric nor any other field of the
  measure enters it, so a metric that was true becomes false once the equality fails.
\<close>

theorem NavPickSuccess_update_metric_grasp_test:
  assumes "kw ''task'' = Some (ArgTask t)"
    and "kw ''episode'' \<noteq> None"
    and "kw ''observations'' \<noteq> None"
    and "target_object_index t = Some ti"
    and "py_index (scene_obj_ids s) ti = Inr a"
  shows "NavPickSuccess_update_metric s self args kw =
           Inr (self\<lparr>metric := PyBool (Some a = snap_idx s)\<rparr>)"
  using assms by (simp add: NavPickSuccess_update_metric_def missing_kw_def)

theorem NavPickSuccess_update_metric_not_sticky:
  "NavPickSuccess_update_metric scenario_sim
      (Measure_init NavPickSuccess Map.empty) [] (scenario_kw (scenario_task 5))
     = Inr ((Measure_init NavPickSuccess Map.empty)\<lparr>metric := PyBool True\<rparr>) \<and>
   NavPickSuccess_update_metric (scenario_sim\<lparr>snap_idx := None\<rparr>)
      ((Measure_init NavPickSuccess Map.empty)\<lparr>metric := PyBool True\<rparr>) []
      (scenario_kw (scenario_task 5))
     = Inr ((Measure_init NavPickSuccess Map.empty)\<lparr>metric := PyBool False\<rparr>)"
  using NavPickSuccess_update_metric_grasp_test
      [of "scenario_kw (scenario_task 5)" "scenario_task 5" 0 scenario_sim 7
        "Measure_init NavPickSuccess Map.empty" "[]"]
    NavPickSuccess_update_metric_grasp_test
      [of "scenario_kw (scenario_task 5)" "scenario_task 5" 0
        "scenario_sim\<lparr>snap_idx := None\<rparr>" 7
        "(Measure_init NavPickSuccess Map.empty)\<lparr>metric := PyBool True\<rparr>" "[]"]
  by (simp add: scenario_task_def scenario_sim_def py_index_def)

section \<open>DistanceToTargetObject.update\_metric\<close>

lemma sqrt_49: "sqrt 49 = 7"
proof -
  have "sqrt 49 = sqrt (7\<^sup>2)" by simp
  then show ?thesis by simp
qed

text \<open>
  C7: whenever the target index selects an entry \<open>i\<close> of the target indices and \<open>i\<close>
  selects the position \<open>(px, py, pz)\<close> of the scene positions, with the end effector's
  translation at \<open>(ex, ey, ez)\<close>, \<open>DistanceToTargetObject.update_metric\<close> stores the
  square root of the sum of the squares of the three coordinate differences, that is, the
  Euclidean norm of the difference of the two points. Both points are read from the
  simulator state of the call and the previous metric does not enter. The stored value is
  the same with the two points swapped.
\<close>

theorem DistanceToTargetObject_update_metric_norm:
  assumes "kw ''task'' = Some (ArgTask t)"
    and "kw ''episode'' \<noteq> None"
    and "target_object_index t = Some ti"
    and "py_index (targets_idxs s) ti = Inr i"
    and "py_index (scene_pos s) i = Inr (px, py, pz)"
    and "ee_translation s = (ex, ey, ez)"
  shows "DistanceToTargetObject_update_metric s self args kw =
           Inr (self\<lparr>metric := PyFloat (sqrt ((px - ex)\<^sup>2 + (py - ey)\<^sup>2 + (pz - ez)\<^sup>2))\<rparr>) \<and>
         sqrt ((px - ex)\<^sup>2 + (py - ey)\<^sup>2 + (pz - ez)\<^sup>2) =
           sqrt ((ex - px)\<^sup>2 + (ey - py)\<^sup>2 + (ez - pz)\<^sup>2)"
proof
  from assms show "DistanceToTargetObject_update_metric s self args kw =
      Inr (self\<lparr>metric := PyFloat (sqrt ((px - ex)\<^sup>2 + (py - ey)\<^sup>2 + (pz - ez)\<^sup>2))\<rparr>)"
    by (simp add: DistanceToTargetObject_update_metric_def missing_kw_def)
  show "sqrt ((px - ex)\<^sup>2 + (py - ey)\<^sup>2 + (pz - ez)\<^sup>2) =
      sqrt ((ex - px)\<^sup>2 + (ey - py)\<^sup>2 + (ez - pz)\<^sup>2)"
    by (simp add: power2_commute)
qed

theorem DistanceToTargetObject_update_metric_norm_witness:
  "DistanceToTargetObject_update_metric scenario_sim_offset (scenario_distance 0) []
      (scenario_kw (scenario_task 0)) = Inr (scenario_distance 7) \<and>
   sqrt ((3 - 1)\<^sup>2 + (5 - 2)\<^sup>2 + (9 - 3)\<^sup>2) = (7::real) \<and>
   sqrt ((1 - 3)\<^sup>2 + (2 - 5)\<^sup>2 + (3 - 9)\<^sup>2) = (7::real)"
proof -
  have n: "sqrt ((3 - 1)\<^sup>2 + (5 - 2)\<^sup>2 + (9 - 3)\<^sup>2) = (7::real)"
    by (simp add: sqrt_49)
  from DistanceToTargetObject_update_metric_norm
    [of "scenario_kw (scenario_task 0)" "scenario_task 0" 0 scenario_sim_offset 1
      3 5 9 1 2 3 "scenario_distance 0" "[]"]
  have "DistanceToTargetObject_update_metric scenario_sim_offset (scenario_distance 0) []
      (scenario_kw (scenario_task 0))
      = Inr ((scenario_distance 0)\<lparr>metric :=
          PyFloat (sqrt ((3 - 1)\<^sup>2 + (5 - 2)\<^sup>2 + (9 - 3)\<^sup>2))\<rparr>) \<and>
    sqrt ((3 - 1)\<^sup>2 + (5 - 2)\<^sup>2 + (9 - 3)\<^sup>2) =
      sqrt ((1 - 3)\<^sup>2 + (2 - 5)\<^sup>2 + (3 - 9)\<^sup>2 :: real)"
    by (simp add: scenario_task_def scenario_sim_offset_def py_index_def)
  with n show ?thesis by (simp add: scenario_distance_def)
qed

section \<open>The reward is never positive\<close>

lemma DistanceToTargetObject_update_metric_nonneg:
  assumes "DistanceToTargetObject_update_metric s d args kw = Inr d'"
  shows "\<exists>x. metric d' = PyFloat x \<and> 0 \<le> x"
  using assms
  by (auto simp: DistanceToTargetObject_update_metric_def Let_def linalg_norm_nonneg
      split: if_splits sum.splits)

lemma DistanceToTargetObject_reset_metric_nonneg:
  assumes "DistanceToTargetObject_reset_metric s d args kw = Inr d'"
  shows "\<exists>x. metric d' = PyFloat x \<and> 0 \<le> x"
  using assms
  by (auto simp: DistanceToTargetObject_reset_metric_def
      dest: DistanceToTargetObject_update_metric_nonneg split: if_splits)

lemma DistanceToTargetObject_state_metric:
  "DistanceToTargetObject_state d \<Longrightarrow>
   metric d = PyNone \<or> (\<exists>x. metric d = PyFloat x \<and> 0 \<le> x)"
proof (induction rule: DistanceToTargetObject_state.induct)
  case (constructed cfg)
  show ?case by (simp add: Measure_init_def)
next
  case (updated d s args kw d')
  from updated.hyps(2) show ?case
    by (blast dest: DistanceToTargetObject_update_metric_nonneg)
next
  case (was_reset d s args kw d')
  from was_reset.hyps(2) show ?case
    by (blast dest: DistanceToTargetObject_reset_metric_nonneg)
qed

lemma scenario_distance_state: "DistanceToTargetObject_state (scenario_distance 5)"
proof -
  have "DistanceToTargetObject_state (Measure_init DistanceToTargetObject Map.empty)"
    by (rule DistanceToTargetObject_state.constructed)
  moreover have "DistanceToTargetObject_update_metric scenario_sim
      (Measure_init DistanceToTargetObject Map.empty) [] (scenario_kw (scenario_task 0))
      = Inr (scenario_distance 5)"
    by (simp add: DistanceToTargetObject_update_metric_def missing_kw_def scenario_task_def
        scenario_sim_def py_index_def scenario_distance_def sqrt_25 Measure_init_def)
  ultimately show ?thesis by (rule DistanceToTargetObject_state.updated)
qed

text \<open>
  C10: when the DistanceToTargetObject entry of the task's measurement set is in a state
  that a DistanceToTargetObject reaches from its construction through its own
  \<open>reset_metric\<close> and \<open>update_metric\<close>, every \<open>NavPickReward.update_metric\<close> call that
  returns has stored a float that is at most zero. (Before the distance has been
  computed its metric is \<open>None\<close>, and the call raises instead of returning.)
\<close>

theorem NavPickReward_update_metric_nonpositive:
  assumes "task_measure (kw ''task'') DistanceToTargetObject_cls_uuid = Inr d"
    and "DistanceToTargetObject_state d"
    and "NavPickReward_update_metric s self args kw = Inr self'"
  shows "\<exists>x. get_metric self' = PyFloat x \<and> x \<le> 0"
proof -
  from assms(2) consider "metric d = PyNone" | x where "metric d = PyFloat x" "0 \<le> x"
    using DistanceToTargetObject_state_metric by blast
  then show ?thesis
  proof cases
    case 1
    with assms(1,3) show ?thesis
      by (simp add: NavPickReward_update_metric_def get_metric_def split: if_splits)
  next
    case 2
    with assms(1,3) show ?thesis
      by (auto simp: NavPickReward_update_metric_def get_metric_def split: if_splits)
  qed
qed

theorem NavPickReward_update_metric_nonpositive_witness:
  "NavPickReward_update_metric scenario_sim scenario_reward [] (scenario_kw (scenario_task 5))
     = Inr (scenario_reward\<lparr>metric := PyFloat (- 5)\<rparr>) \<and>
   (\<exists>x. get_metric (scenario_reward\<lparr>metric := PyFloat (- 5)\<rparr>) = PyFloat x \<and> x \<le> 0)"
proof -
  have u: "NavPickReward_update_metric scenario_sim scenario_reward []
      (scenario_kw (scenario_task 5)) = Inr (scenario_reward\<lparr>metric := PyFloat (- 5)\<rparr>)"
    by (simp add: NavPickReward_update_metric_def missing_kw_def scenario_task_def
        scenario_distance_def get_metric_def)
  have m: "task_measure (scenario_kw (scenario_task 5) ''task'')
      DistanceToTargetObject_cls_uuid = Inr (scenario_distance 5)"
    by (simp add: scenario_task_def)
  from NavPickReward_update_metric_nonpositive [OF m scenario_distance_state u] u
  show ?thesis by simp
qed

section \<open>NavPickTaskV1.reset\<close>

lemma randint_range:
  assumes "randint low high r = Inr i"
  shows "low \<le> i \<and> i < high"
proof -
  from assms have lt: "0 < high - low" and i: "i = low + int r mod (high - low)"
    by (auto simp: randint_def split: if_splits)
  from lt have "0 \<le> int r mod (high - low)" "int r mod (high - low) < high - low"
    by simp_all
  with i show ?thesis by linarith
qed

lemma randint_onto: "low \<le> i \<Longrightarrow> i < high \<Longrightarrow> randint low high (nat (i - low)) = Inr i"
  by (simp add: randint_def)

text \<open>
  With at least one target, \<open>reset\<close> does not raise by itself: it hands the task with a
  valid index, and the simulator with the new base position, to the base class.
\<close>

lemma NavPickTaskV1_reset_calls_super:
  assumes "0 < n_targets s"
  shows "\<exists>i. 0 \<le> i \<and> i < n_targets s \<and>
           NavPickTaskV1_reset super_reset r nav_point (t, s) episode =
             super_reset (t\<lparr>target_object_index := Some i\<rparr>, s\<lparr>base_pos := nav_point\<rparr>) episode"
proof -
  from assms have r: "randint 0 (n_targets s) r = Inr (int r mod n_targets s)"
    by (simp add: randint_def)
  from randint_range [OF r] r show ?thesis
    by (intro exI [of _ "int r mod n_targets s"]) (simp add: NavPickTaskV1_reset_def)
qed

text \<open>
  C9: if the simulator reports at least one target and the base class's \<open>reset\<close> leaves
  \<open>target_object_index\<close> and the number of targets as they are, then after every
  \<open>NavPickTaskV1.reset\<close> that returns, \<open>target_object_index\<close> is set to an int \<open>i\<close>
  with \<open>0 \<le> i < get_n_targets()\<close>.
\<close>

theorem NavPickTaskV1_reset_index_valid:
  assumes "0 < n_targets s"
    and sup: "\<And>w ep w' ob. super_reset w ep = Inr (w', ob) \<Longrightarrow>
           target_object_index (fst w') = target_object_index (fst w) \<and>
           n_targets (snd w') = n_targets (snd w)"
    and res: "NavPickTaskV1_reset super_reset r nav_point (t, s) episode = Inr ((t', s'), obs)"
  shows "\<exists>i. target_object_index t' = Some i \<and> 0 \<le> i \<and> i < n_targets s'"
proof -
  from res obtain i where i: "randint 0 (n_targets s) r = Inr i"
    and call: "super_reset (t\<lparr>target_object_index := Some i\<rparr>, s\<lparr>base_pos := nav_point\<rparr>) episode
                 = Inr ((t', s'), obs)"
    by (auto simp: NavPickTaskV1_reset_def Let_def split: sum.splits)
  from sup [OF call] have "target_object_index t' = Some i" "n_targets s' = n_targets s"
    by simp_all
  with randint_range [OF i] show ?thesis by simp
qed

theorem NavPickTaskV1_reset_index_valid_witness:
  "NavPickTaskV1_reset (\<lambda>w ep. Inr (w, ())) 7 (1, 2, 3)
      (scenario_task 0, scenario_sim\<lparr>n_targets := 3\<rparr>) 0
     = Inr (((scenario_task 0)\<lparr>target_object_index := Some 1\<rparr>,
             scenario_sim\<lparr>n_targets := 3, base_pos := (1, 2, 3)\<rparr>), ()) \<and>
   (\<exists>i. target_object_index ((scenario_task 0)\<lparr>target_object_index := Some 1\<rparr>) = Some i \<and>
        0 \<le> i \<and> i < n_targets (scenario_sim\<lparr>n_targets := 3, base_pos := (1, 2, 3)\<rparr>))"
proof -
  have r: "NavPickTaskV1_reset (\<lambda>w ep. Inr (w, ())) 7 (1, 2, 3)
      (scenario_task 0, scenario_sim\<lparr>n_targets := 3\<rparr>) 0
     = Inr (((scenario_task 0)\<lparr>target_object_index := Some 1\<rparr>,
             scenario_sim\<lparr>n_targets := 3, base_pos := (1, 2, 3)\<rparr>), ())"
    by (simp add: NavPickTaskV1_reset_def randint_def)
  have n: "0 < n_targets (scenario_sim\<lparr>n_targets := 3\<rparr>)" by simp
  have "\<exists>i. target_object_index ((scenario_task 0)\<lparr>target_object_index := Some 1\<rparr>) = Some i \<and>
        0 \<le> i \<and> i < n_targets (scenario_sim\<lparr>n_targets := 3, base_pos := (1, 2, 3)\<rparr>)"
    by (rule NavPickTaskV1_reset_index_valid [OF n _ r]) simp
  with r show ?thesis by simp
qed

section \<open>The episode loop\<close>

lemma step_loop_reaches:
  assumes ov: "over_after_exactly advance terminated sample s0 n"
  shows "k < n \<Longrightarrow> sim_after advance sample s0 k = Inr (simulator e) \<Longrightarrow> status e = RUNNING \<Longrightarrow>
         \<exists>e'. step_loop (Env_step advance terminated) sample e k = Some (Inr n, e') \<and>
              status e' = DONE \<and> released e' = released e \<and>
              sim_after advance sample s0 n = Inr (simulator e')"
proof (induction "n - k" arbitrary: k e)
  case 0
  then show ?case by simp
next
  case (Suc d)
  let ?stp = "Env_step advance terminated"
  from Suc.prems have not_over: "\<not> episode_over e" by (simp add: episode_over_def)
  show ?case
  proof (cases "Suc k = n")
    case True
    with ov obtain sn where sn: "sim_after advance sample s0 (Suc k) = Inr sn" "terminated sn"
      by (auto simp: over_after_exactly_def split: sum.splits)
    with Suc.prems have adv: "advance (simulator e) (sample k) = Inr sn" by simp
    let ?e' = "e\<lparr>simulator := sn, status := DONE\<rparr>"
    from adv sn Suc.prems have st: "?stp e (sample k) = Inr ?e'"
      by (simp add: Env_step_def)
    have "step_loop ?stp sample ?e' (k + 1) = Some (Inr (k + 1), ?e')"
      by (subst step_loop.simps) (simp add: episode_over_def)
    with st not_over have "step_loop ?stp sample e k = Some (Inr (k + 1), ?e')"
      by (subst step_loop.simps) simp
    with True sn show ?thesis by auto
  next
    case False
    with Suc.prems have lt: "Suc k < n" by simp
    then have "Suc k \<in> {1..<n}" by simp
    with ov have "case sim_after advance sample s0 (Suc k) of
        Inl x \<Rightarrow> False | Inr s \<Rightarrow> \<not> terminated s"
      unfolding over_after_exactly_def by blast
    then obtain sk where sk: "sim_after advance sample s0 (Suc k) = Inr sk" "\<not> terminated sk"
      by (cases "sim_after advance sample s0 (Suc k)") auto
    with Suc.prems have adv: "advance (simulator e) (sample k) = Inr sk" by simp
    let ?e' = "e\<lparr>simulator := sk, status := RUNNING\<rparr>"
    from adv sk Suc.prems have st: "?stp e (sample k) = Inr ?e'"
      by (simp add: Env_step_def)
    from Suc.hyps(2) have d: "d = n - Suc k" by simp
    from sk(1) have a: "sim_after advance sample s0 (Suc k) = Inr (simulator ?e')"
      by (simp del: sim_after.simps)
    have "\<exists>e''. step_loop ?stp sample ?e' (Suc k) = Some (Inr n, e'') \<and>
              status e'' = DONE \<and> released e'' = released ?e' \<and>
              sim_after advance sample s0 n = Inr (simulator e'')"
      by (rule Suc.hyps(1) [OF d lt a]) simp
    moreover from st not_over
    have "step_loop ?stp sample e k = step_loop ?stp sample ?e' (Suc k)"
      by (subst step_loop.simps) simp
    ultimately show ?thesis by simp
  qed
qed

lemma Env_step_DONE:
  "status e = DONE \<Longrightarrow> Env_step advance terminated e a = Inl StateMachineError"
  by (simp add: Env_step_def)

lemma sim_after_counting: "sim_after counting_advance sample s0 k = Inr (s0 + k)"
  by (induction k) (simp_all add: counting_advance_def)

lemma counting_over: "over_after_exactly counting_advance over_after_five (\<lambda>k. ()) 0 5"
  by (simp add: over_after_exactly_def sim_after_counting over_after_five_def)

text \<open>
  C6: on an environment whose \<open>episode_over\<close> becomes true after exactly \<open>n\<close> step
  calls, the body of the demo (reset, then the loop) returns with \<open>count_steps = n\<close>: the
  loop has made exactly \<open>n\<close> step calls, each while \<open>episode_over\<close> was false, and has
  stopped when it became true. The environment is then DONE, its simulator is in the state
  after \<open>n\<close> steps, and any further step call is rejected with a state-machine error.
  For \<open>n = 5\<close> this is the end-to-end scenario of the spec.
\<close>

theorem episode_loop_runs_until_over:
  assumes "over_after_exactly advance terminated sample s0 n"
  shows "\<exists>e'. episode_body (Env_step advance terminated) sample (Env_init s0) = Some (Inr n, e') \<and>
              status e' = DONE \<and>
              sim_after advance sample s0 n = Inr (simulator e') \<and>
              (\<forall>a. Env_step advance terminated e' a = Inl StateMachineError)"
proof -
  from assms have n: "0 < n" by (simp add: over_after_exactly_def)
  have "\<exists>e'. step_loop (Env_step advance terminated) sample (Env_reset (Env_init s0)) 0
               = Some (Inr n, e') \<and>
             status e' = DONE \<and> released e' = released (Env_reset (Env_init s0)) \<and>
             sim_after advance sample s0 n = Inr (simulator e')"
    by (rule step_loop_reaches [OF assms n]) (simp_all add: Env_reset_def Env_init_def)
  then show ?thesis
    by (auto simp: episode_body_def Env_step_DONE)
qed

theorem episode_loop_five_steps:
  "\<exists>e'. episode_body (Env_step counting_advance over_after_five) (\<lambda>k. ()) (Env_init 0)
          = Some (Inr 5, e') \<and>
        status e' = DONE \<and> simulator e' = 5 \<and>
        (\<forall>a. Env_step counting_advance over_after_five e' a = Inl StateMachineError)"
  using episode_loop_runs_until_over [OF counting_over] by (auto simp: sim_after_counting)

section \<open>The environment as a scoped resource\<close>

lemma failing_demo:
  "nav_pick_demo failing_advance (\<lambda>s. False) (\<lambda>k. ()) 0
     = Some (Inl SimulatorStateError, \<lparr>status = RUNNING, simulator = 2, released = True\<rparr>)"
  by (simp add: nav_pick_demo_def with_Env_def episode_body_def step_loop.simps Env_step_def
      Env_reset_def Env_init_def Env_close_def episode_over_def failing_advance_def)

text \<open>
  C8: whenever a demo that holds its environment in a \<open>with\<close> block is left, with the
  step count at the end of the loop or with an exception raised inside the block, the
  environment has been released. (An execution whose loop runs forever never leaves the
  block. The Gym API demo makes its gym environment outside any \<open>with\<close> block and is
  not covered.)
\<close>

theorem with_Env_releases:
  assumes "nav_pick_demo advance terminated sample s0 = Some (out, e')"
  shows "released e'"
  using assms
  by (auto simp: nav_pick_demo_def with_Env_def Env_close_def split: option.splits)

theorem with_Env_releases_on_exception:
  "nav_pick_demo failing_advance (\<lambda>s. False) (\<lambda>k. ()) 0
     = Some (Inl SimulatorStateError, \<lparr>status = RUNNING, simulator = 2, released = True\<rparr>) \<and>
   released \<lparr>status = RUNNING, simulator = 2::nat, released = True\<rparr>"
  using with_Env_releases [OF failing_demo] failing_demo by simp

end
